theory Spec2Isabelle
  imports Complex_Main "HOL-Library.Log_Nat" "HOL-Library.Multiset"
begin

section \<open>The Nagios plugin for Amazon RDS, \<^verbatim>\<open>nagios/check-aws-rds.py\<close>\<close>

text \<open>
  The plugin parses its command line, builds an \<^verbatim>\<open>RDS\<close> object (which may ask the
  provider for one instance descriptor), and then lists instances, prints one descriptor,
  or fetches a CloudWatch metric and compares it with two optional thresholds. Everything
  the program does beyond computing is made explicit here: its output is a list of print
  events, its remote calls are a trace, a raised exception is a value, and the exit status
  is the result of \<open>main\<close>.
\<close>

subsection \<open>Python floats\<close>

text \<open>
  The metric average and the thresholds (\<^verbatim>\<open>type=float\<close>) are binary64 floats. A finite
  float is modelled by the rational it denotes (the two zeros are identified: they compare
  equal); the infinities and NaN are separate values, since \<^verbatim>\<open>float('nan')\<close> and
  \<^verbatim>\<open>float('inf')\<close> are accepted as thresholds.
\<close>

datatype pyfloat = Finite rat | PosInf | NegInf | NaN

text \<open>Comparison of floats: every comparison with NaN is false.\<close>

fun float_le :: "pyfloat \<Rightarrow> pyfloat \<Rightarrow> bool" where
  "float_le NaN _ = False"
| "float_le _ NaN = False"
| "float_le NegInf _ = True"
| "float_le _ PosInf = True"
| "float_le (Finite a) (Finite b) = (a \<le> b)"
| "float_le _ _ = False"

definition float_ge :: "pyfloat \<Rightarrow> pyfloat \<Rightarrow> bool" where
  "float_ge a b = float_le b a"

text \<open>Rounding a rational to the nearest integer, a tie going to the even neighbour.\<close>

definition round_half_even :: "rat \<Rightarrow> int" where
  "round_half_even q =
     (let f = \<lfloor>q\<rfloor>; r = q - of_int f
      in if r < 1 / 2 then f
         else if 1 / 2 < r then f + 1
         else if even f then f else f + 1)"

definition pow2 :: "int \<Rightarrow> rat" where
  "pow2 k = (if 0 \<le> k then 2 ^ nat k else 1 / 2 ^ nat (- k))"

text \<open>
  The binary exponent of a positive rational \<open>q\<close>: the \<open>e\<close> with
  \<open>2 ^ e \<le> q < 2 ^ (e + 1)\<close>, found from the bit length of the integer part of
  \<open>q\<close> (or of \<open>1 / q\<close> when \<open>q < 1\<close>).
\<close>

definition binexp :: "rat \<Rightarrow> int" where
  "binexp q =
     (if 1 \<le> q then bitlen \<lfloor>q\<rfloor> - 1
      else
        let k = bitlen \<lfloor>1 / q\<rfloor> - 1
        in if pow2 (- k) \<le> q then - k else - k - 1)"

text \<open>
  The binary64 float nearest to a rational (what Python's \<^verbatim>\<open>float\<close> of a decimal string
  gives): 53 significant bits, exponents from \<open>-1022\<close> (below it the spacing stays
  \<open>2 ^ -1074\<close>), ties to the even significand, overflow to an infinity.
\<close>

definition to_double :: "rat \<Rightarrow> pyfloat" where
  "to_double q =
     (if q = 0 then Finite 0
      else
        let e = max (binexp \<bar>q\<bar>) (- 1022);
            ulp = pow2 (e - 52);
            r = of_int (round_half_even (q / ulp)) * ulp
        in if pow2 1024 \<le> \<bar>r\<bar> then (if 0 < q then PosInf else NegInf)
           else Finite r)"

text \<open>
  \<^verbatim>\<open>round(x, 2)\<close> on a float: CPython rounds the exact value of \<open>x\<close> correctly to two
  decimals (ties to even) and converts that decimal back to the nearest float; NaN and
  the infinities round to themselves.
\<close>

fun py_round2 :: "pyfloat \<Rightarrow> pyfloat" where
  "py_round2 (Finite q) = to_double (of_int (round_half_even (q * 100)) / 100)"
| "py_round2 x = x"

subsection \<open>Values that travel between the provider and the program\<close>

text \<open>
  An instance descriptor is the dictionary the provider returns for one database instance.
  The program never looks inside it; it only tests it for truth (an empty dictionary is
  false) and pretty-prints it.
\<close>

datatype pyval =
    Str string
  | Num int
  | Bool bool
  | Seq "pyval list"
  | Dict "(string \<times> pyval) list"

type_synonym descriptor = "(string \<times> pyval) list"

text \<open>A point in time, in microseconds (the resolution of \<^verbatim>\<open>datetime\<close>).\<close>

type_synonym datetime = int

definition timedelta_minutes :: "int \<Rightarrow> int" where
  "timedelta_minutes m = m * 60 * 1000000"

text \<open>One CloudWatch sample, as requested with \<^verbatim>\<open>Statistics=['Average']\<close>.\<close>

record datapoint =
  Timestamp :: datetime
  Average :: pyfloat

text \<open>
  The exceptions of the program. \<open>ClientError\<close> carries its message (what
  \<^verbatim>\<open>{error}\<close> prints); it is the only class the program catches. Any other exception
  a call raises is an \<open>OtherException\<close> with its class name.
\<close>

datatype exn = ClientError string | IndexError | OtherException string

datatype 'a raised = Returns 'a | Raises exn

text \<open>The two responses the program reads: \<^verbatim>\<open>response['DBInstances']\<close> and
  \<^verbatim>\<open>response.get('Datapoints', [])\<close> (the key may be absent).\<close>

record describe_response =
  DBInstances :: "descriptor list"

record metric_response =
  Datapoints :: "datapoint list option"

text \<open>The keyword arguments of \<^verbatim>\<open>get_metric_statistics\<close>.\<close>

record metric_request =
  Namespace :: string
  MetricName :: string
  StartTime :: datetime
  EndTime :: datetime
  Period :: nat
  Statistics :: "string list"
  Dimensions :: "(string \<times> string option) list"

text \<open>
  The provider, as seen through the two clients of the session: what
  \<^verbatim>\<open>describe_db_instances\<close> does for a given \<^verbatim>\<open>DBInstanceIdentifier\<close> (\<open>None\<close> when
  the call passes none) and what \<^verbatim>\<open>get_metric_statistics\<close> does for a given request.
  Creating the session and the clients is local and is not modelled as a call.
\<close>

record aws =
  describe_db_instances :: "string option \<Rightarrow> describe_response raised"
  get_metric_statistics :: "metric_request \<Rightarrow> metric_response raised"

datatype call = DescribeDBInstances "string option" | GetMetricStatistics metric_request

subsection \<open>Output, the trace of remote calls, the exit status\<close>

text \<open>
  A print event is a list of fragments: literal text, a float formatted by an f-string,
  an object formatted by \<^verbatim>\<open>pprint\<close>, and (on standard error) the parser's usage text and
  program name. The formatting of floats and of \<^verbatim>\<open>pprint\<close> is left symbolic.
\<close>

datatype pobj = Descriptor descriptor | Listing "(string \<times> descriptor list) list"

datatype frag = S string | F pyfloat | PP pobj | Usage | Prog

type_synonym line = "frag list"

record world =
  stdout :: "line list"
  stderr :: "line list"
  calls :: "call list"

definition world0 :: world where
  "world0 = \<lparr>stdout = [], stderr = [], calls = []\<rparr>"

definition py_print :: "line \<Rightarrow> world \<Rightarrow> world" where
  "py_print l w = w\<lparr>stdout := stdout w @ [l]\<rparr>"

definition remote :: "call \<Rightarrow> world \<Rightarrow> world" where
  "remote c w = w\<lparr>calls := calls w @ [c]\<rparr>"

text \<open>Nagios status codes (lines 14-18).\<close>

definition OK :: nat where "OK = 0"
definition WARNING :: nat where "WARNING = 1"
definition CRITICAL :: nat where "CRITICAL = 2"
definition UNKNOWN :: nat where "UNKNOWN = 3"

text \<open>How a run ends: \<^verbatim>\<open>sys.exit\<close> with a status, or an exception nobody caught.\<close>

datatype outcome = Exit nat | Uncaught exn

text \<open>
  \<^verbatim>\<open>parser.error(message)\<close> of \<^verbatim>\<open>argparse\<close>: prints the usage text and
  \<^verbatim>\<open>prog: error: message\<close> to standard error and exits with status 2.
\<close>

definition parser_error :: "string \<Rightarrow> world \<Rightarrow> outcome \<times> world" where
  "parser_error message w =
     (Exit 2, w\<lparr>stderr := stderr w @ [[Usage], [Prog, S '': error: '', S message]]\<rparr>)"

text \<open>Truth of an optional string: \<^verbatim>\<open>None\<close> and \<^verbatim>\<open>''\<close> are false.\<close>

fun truthy :: "string option \<Rightarrow> bool" where
  "truthy None = False"
| "truthy (Some s) = (s \<noteq> [])"

text \<open>What an f-string prints for an optional string.\<close>

fun str_opt :: "string option \<Rightarrow> string" where
  "str_opt None = ''None''"
| "str_opt (Some s) = s"

subsection \<open>The parsed command line (lines 83-92)\<close>

record options =
  list :: bool
  profile :: "string option"
  region :: string
  ident :: "string option"
  printinfo :: bool
  metric :: "string option"
  warn :: "pyfloat option"
  crit :: "pyfloat option"

text \<open>The values \<^verbatim>\<open>parse_args\<close> gives when no flag is passed.\<close>

definition default_options :: options where
  "default_options =
     \<lparr>list = False, profile = None, region = ''us-east-1'', ident = None,
      printinfo = False, metric = None, warn = None, crit = None\<rparr>"

subsection \<open>Class \<^verbatim>\<open>RDS\<close> (lines 20-76)\<close>

record rds =
  rds_region :: string
  rds_profile :: "string option"
  rds_identifier :: "string option"
  info :: "descriptor option"

text \<open>
  \<^verbatim>\<open>RDS.__init__\<close> (lines 23-39). With a true identifier it calls
  \<^verbatim>\<open>describe_db_instances\<close>; \<^verbatim>\<open>response['DBInstances'][0]\<close> raises IndexError on an
  empty list; only \<open>ClientError\<close> is caught.
\<close>

definition RDS_init ::
  "aws \<Rightarrow> string \<Rightarrow> string option \<Rightarrow> string option \<Rightarrow> world \<Rightarrow> (exn + rds) \<times> world" where
  "RDS_init env region' profile' identifier' w =
     (let self = \<lparr>rds_region = region', rds_profile = profile',
                  rds_identifier = identifier', info = None\<rparr>
      in if truthy identifier' then
           (let w1 = remote (DescribeDBInstances identifier') w
            in case describe_db_instances env identifier' of
                 Returns response \<Rightarrow>
                   (case DBInstances response of
                      [] \<Rightarrow> (Inl IndexError, w1)
                    | d # _ \<Rightarrow> (Inr (self\<lparr>info := Some d\<rparr>), w1))
               | Raises e \<Rightarrow>
                   (case e of
                      ClientError error \<Rightarrow>
                        (Inr self, py_print [S ''Error retrieving RDS instance: '', S error] w1)
                    | _ \<Rightarrow> (Inl e, w1)))
         else (Inr self, w))"

text \<open>\<^verbatim>\<open>RDS.get_info\<close> (lines 41-43).\<close>

definition get_info :: "rds \<Rightarrow> descriptor option" where
  "get_info self = info self"

text \<open>
  \<^verbatim>\<open>RDS.get_list\<close> (lines 45-53). The dictionary \<^verbatim>\<open>{self.region: ...}\<close> is an
  association list; \<^verbatim>\<open>{}\<close> is the empty one.
\<close>

definition get_list ::
  "aws \<Rightarrow> rds \<Rightarrow> world \<Rightarrow> (exn + (string \<times> descriptor list) list) \<times> world" where
  "get_list env self w =
     (let w1 = py_print [S ''Listing all RDS instances in region '', S (rds_region self)] w;
          w2 = remote (DescribeDBInstances None) w1
      in case describe_db_instances env None of
           Returns response \<Rightarrow> (Inr [(rds_region self, DBInstances response)], w2)
         | Raises e \<Rightarrow>
             (case e of
                ClientError error \<Rightarrow>
                  (Inr [], py_print [S ''Error listing RDS instances: '', S error] w2)
              | _ \<Rightarrow> (Inl e, w2)))"

text \<open>
  \<^verbatim>\<open>sorted(xs, key=..., reverse=True)\<close>: CPython reverses the list, sorts it with a
  stable ascending sort, and reverses the result, so that elements with equal keys keep
  their order. \<open>sort_key\<close> is a stable insertion sort.
\<close>

definition sorted_reverse :: "('a \<Rightarrow> 'k::linorder) \<Rightarrow> 'a list \<Rightarrow> 'a list" where
  "sorted_reverse key xs = rev (sort_key key (rev xs))"

text \<open>The request of \<^verbatim>\<open>RDS.get_metric\<close> (lines 58-66).\<close>

definition statistics_request ::
  "rds \<Rightarrow> string \<Rightarrow> datetime \<Rightarrow> datetime \<Rightarrow> nat \<Rightarrow> metric_request" where
  "statistics_request self metric' start_time end_time step =
     \<lparr>Namespace = ''AWS/RDS'', MetricName = metric', StartTime = start_time,
      EndTime = end_time, Period = step, Statistics = [''Average''],
      Dimensions = [(''DBInstanceIdentifier'', rds_identifier self)]\<rparr>"

text \<open>\<^verbatim>\<open>RDS.get_metric\<close> (lines 55-76).\<close>

definition get_metric ::
  "aws \<Rightarrow> rds \<Rightarrow> string \<Rightarrow> datetime \<Rightarrow> datetime \<Rightarrow> nat \<Rightarrow> world
     \<Rightarrow> (exn + pyfloat option) \<times> world" where
  "get_metric env self metric' start_time end_time step w =
     (let request = statistics_request self metric' start_time end_time step;
          w1 = remote (GetMetricStatistics request) w
      in case get_metric_statistics env request of
           Returns response \<Rightarrow>
             (let datapoints = (case Datapoints response of None \<Rightarrow> [] | Some ds \<Rightarrow> ds)
              in if datapoints \<noteq> [] then
                   (case sorted_reverse Timestamp datapoints of
                      [] \<Rightarrow> (Inl IndexError, w1)
                    | d # _ \<Rightarrow> (Inr (Some (py_round2 (Average d))), w1))
                 else (Inr None, py_print [S ''No datapoints found for the given metric.''] w1))
         | Raises e \<Rightarrow>
             (case e of
                ClientError error \<Rightarrow>
                  (Inr None, py_print [S ''Error retrieving metric: '', S error] w1)
              | _ \<Rightarrow> (Inl e, w1)))"

subsection \<open>\<^verbatim>\<open>main\<close> (lines 79-126)\<close>

text \<open>List mode (lines 96-100); \<^verbatim>\<open>sys.exit()\<close> without an argument is status 0.\<close>

definition list_mode :: "aws \<Rightarrow> rds \<Rightarrow> options \<Rightarrow> world \<Rightarrow> outcome \<times> world" where
  "list_mode env r opts w =
     (case get_list env r w of
        (Inl e, w1) \<Rightarrow> (Uncaught e, w1)
      | (Inr info', w1) \<Rightarrow>
          (let w2 = py_print [S ''List of all DB instances in '', S (region opts), S '':''] w1;
               w3 = py_print [PP (Listing info')] w2
           in (Exit 0, w3)))"

text \<open>Info mode (lines 101-104); the test \<^verbatim>\<open>if info\<close> is false for \<^verbatim>\<open>None\<close> and for an
  empty dictionary.\<close>

definition info_mode :: "rds \<Rightarrow> options \<Rightarrow> world \<Rightarrow> outcome \<times> world" where
  "info_mode r opts w =
     (let info' = get_info r
      in (Exit 0,
          py_print
            (case info' of
               Some d \<Rightarrow>
                 if d \<noteq> [] then [PP (Descriptor d)]
                 else [S ''No DB instance \"'', S (str_opt (ident opts)), S ''\" found.'']
             | None \<Rightarrow> [S ''No DB instance \"'', S (str_opt (ident opts)), S ''\" found.''])
            w))"

text \<open>
  The comparison with the thresholds (lines 116-126). \<^verbatim>\<open>t is not None and result >= t\<close>
  is \<open>reaches\<close>.
\<close>

fun reaches :: "pyfloat \<Rightarrow> pyfloat option \<Rightarrow> bool" where
  "reaches result None = False"
| "reaches result (Some t) = float_ge result t"

definition compare_thresholds ::
  "options \<Rightarrow> string \<Rightarrow> string \<Rightarrow> pyfloat \<Rightarrow> world \<Rightarrow> outcome \<times> world" where
  "compare_thresholds opts i m result w =
     (if reaches result (crit opts) then
        (Exit CRITICAL, py_print [S i, S '' '', S m, S '': CRITICAL '', F result, S ''%''] w)
      else if reaches result (warn opts) then
        (Exit WARNING, py_print [S i, S '' '', S m, S '': WARNING '', F result, S ''%''] w)
      else
        (Exit OK, py_print [S i, S '' '', S m, S '': OK '', F result, S ''%''] w))"

text \<open>The metric check (lines 110-126), reached with an identifier and a metric name.\<close>

definition check_metric ::
  "aws \<Rightarrow> datetime \<Rightarrow> rds \<Rightarrow> options \<Rightarrow> string \<Rightarrow> string \<Rightarrow> world \<Rightarrow> outcome \<times> world" where
  "check_metric env utcnow r opts i m w =
     (let now = utcnow
      in case get_metric env r m (now - timedelta_minutes 5) now 60 w of
           (Inl e, w1) \<Rightarrow> (Uncaught e, w1)
         | (Inr None, w1) \<Rightarrow>
             (Exit UNKNOWN, py_print [S ''UNKNOWN Unable to get RDS statistics''] w1)
         | (Inr (Some result), w1) \<Rightarrow> compare_thresholds opts i m result w1)"

text \<open>Threshold-check mode: the two argument checks (lines 105-108), then the check.\<close>

definition check_mode :: "aws \<Rightarrow> datetime \<Rightarrow> rds \<Rightarrow> options \<Rightarrow> world \<Rightarrow> outcome \<times> world" where
  "check_mode env utcnow r opts w =
     (if \<not> truthy (ident opts) then parser_error ''DB identifier is not set.'' w
      else if \<not> truthy (metric opts) then parser_error ''Metric is not set.'' w
      else check_metric env utcnow r opts (str_opt (ident opts)) (str_opt (metric opts)) w)"

text \<open>
  \<^verbatim>\<open>main\<close>, from the parsed options on: the provider, the clock (\<^verbatim>\<open>utcnow()\<close>) and
  the options are its inputs; its result is how the process ends and what it printed and
  called.
\<close>

definition main :: "aws \<Rightarrow> datetime \<Rightarrow> options \<Rightarrow> outcome \<times> world" where
  "main env utcnow opts =
     (case RDS_init env (region opts) (profile opts) (ident opts) world0 of
        (Inl e, w) \<Rightarrow> (Uncaught e, w)
      | (Inr r, w) \<Rightarrow>
          if list opts then list_mode env r opts w
          else if printinfo opts then info_mode r opts w
          else check_mode env utcnow r opts w)"

subsection \<open>Fixtures: concrete providers and command lines\<close>

definition db1_descriptor :: descriptor where
  "db1_descriptor = [(''DBInstanceIdentifier'', Str ''db1''), (''Engine'', Str ''postgres'')]"

text \<open>A provider that knows one instance and answers every metric request with \<open>ds\<close>.\<close>

definition provider :: "datapoint list \<Rightarrow> aws" where
  "provider ds =
     \<lparr>describe_db_instances = (\<lambda>a. Returns \<lparr>DBInstances = [db1_descriptor]\<rparr>),
      get_metric_statistics = (\<lambda>q. Returns \<lparr>Datapoints = Some ds\<rparr>)\<rparr>"

text \<open>A provider that refuses every call with an error response.\<close>

definition refusing_provider :: aws where
  "refusing_provider =
     \<lparr>describe_db_instances = (\<lambda>a. Raises (ClientError ''AccessDenied'')),
      get_metric_statistics = (\<lambda>q. Raises (ClientError ''AccessDenied''))\<rparr>"

text \<open>\<^verbatim>\<open>-i db1 -m CPUUtilization -w 70 -c 90\<close>\<close>

definition check_options :: options where
  "check_options =
     default_options\<lparr>ident := Some ''db1'', metric := Some ''CPUUtilization'',
                     warn := Some (Finite 70), crit := Some (Finite 90)\<rparr>"

definition sample :: "datetime \<Rightarrow> pyfloat \<Rightarrow> datapoint" where
  "sample t a = \<lparr>Timestamp = t, Average = a\<rparr>"

section \<open>Properties\<close>

subsection \<open>Auxiliary facts\<close>

lemma float_le_trans: "float_le a b \<Longrightarrow> float_le b c \<Longrightarrow> float_le a c"
  by (cases a; cases b; cases c) auto

lemma last_insort_key:
  "xs \<noteq> [] \<Longrightarrow> sorted (map f xs) \<Longrightarrow>
   last (insort_key f x xs) = (if f (last xs) < f x then x else last xs)"
proof (induction xs)
  case Nil
  then show ?case by simp
next
  case (Cons a xs)
  show ?case
  proof (cases "xs = []")
    case True
    then show ?thesis by auto
  next
    case False
    with Cons.prems have s: "sorted (map f xs)" and le: "f a \<le> f (last xs)"
      by auto
    from Cons.IH [OF False s] False le show ?thesis
      by (auto simp: insort_is_Cons)
  qed
qed

lemma find_app:
  "List.find P (xs @ ys) = (case List.find P xs of None \<Rightarrow> List.find P ys | Some x \<Rightarrow> Some x)"
  by (induction xs) auto

lemma last_sort_key:
  "ys \<noteq> [] \<Longrightarrow>
   List.find (\<lambda>x. f x = Max (f ` set ys)) (rev ys) = Some (last (sort_key f ys))"
proof (induction ys)
  case Nil
  then show ?case by simp
next
  case (Cons y ys)
  show ?case
  proof (cases "ys = []")
    case True
    then show ?thesis by simp
  next
    case False
    let ?S = "sort_key f ys"
    let ?M = "Max (f ` set ys)"
    have ne: "?S \<noteq> []" using False by (metis set_sort set_empty)
    have so: "sorted (map f ?S)" by (rule sorted_sort_key)
    from Cons.IH [OF False]
    have IH: "List.find (\<lambda>x. f x = ?M) (rev ys) = Some (last ?S)" .
    then have lastM: "f (last ?S) = ?M" by (auto simp: find_Some_iff)
    have Mx: "Max (f ` set (y # ys)) = max (f y) ?M" using False by simp
    have bound: "f x \<le> ?M" if "x \<in> set ys" for x using that by simp
    show ?thesis
    proof (cases "?M < f y")
      case True
      have "f x \<noteq> f y" if "x \<in> set ys" for x
        using bound [OF that] True by simp
      then have none: "List.find (\<lambda>x. f x = f y) (rev ys) = None"
        by (simp add: find_None_iff)
      from True have "max (f y) ?M = f y"
        by (simp add: max.absorb1 less_imp_le)
      with Mx have P: "Max (f ` set (y # ys)) = f y" by simp
      show ?thesis unfolding P
        using True by (simp add: find_app none last_insort_key [OF ne so] lastM)
    next
      case False
      then have "max (f y) ?M = ?M" by (simp add: max.absorb2)
      with Mx have P: "Max (f ` set (y # ys)) = ?M" by simp
      show ?thesis unfolding P
        using False by (simp add: find_app IH last_insort_key [OF ne so] lastM)
    qed
  qed
qed

lemma sorted_reverse_hd:
  assumes "xs \<noteq> []"
  shows "\<exists>d rest. sorted_reverse f xs = d # rest \<and>
           List.find (\<lambda>x. f x = Max (f ` set xs)) xs = Some d"
proof -
  let ?S = "sort_key f (rev xs)"
  have ne: "?S \<noteq> []" using assms by (metis set_sort set_empty set_rev)
  from assms last_sort_key [of "rev xs" f]
  have fnd: "List.find (\<lambda>x. f x = Max (f ` set xs)) xs = Some (last ?S)" by simp
  have "rev ?S = last ?S # rev (butlast ?S)"
    by (simp add: rev_eq_Cons_iff append_butlast_last_id [OF ne])
  with fnd show ?thesis unfolding sorted_reverse_def by blast
qed

lemma floor_rat_numeral_div:
  "\<lfloor>numeral a / numeral b :: rat\<rfloor> = numeral a div numeral b"
  using floor_divide_of_int_eq [of "numeral a" "numeral b", where ?'a = rat] by simp

lemma bitlen_12: "bitlen 12 = 4" by code_simp
lemma bitlen_95: "bitlen 95 = 7" by code_simp

lemma pow2_1024: "pow2 1024 = 2 ^ 1024" by (simp add: pow2_def)
lemma pow2_m49: "pow2 (- 49) = 1 / 562949953421312" by (simp add: pow2_def)
lemma pow2_m46: "pow2 (- 46) = 1 / 70368744177664" by (simp add: pow2_def)

lemma to_double_95: "to_double 95 = Finite 95"
proof -
  have e: "max (binexp \<bar>95\<bar>) (- 1022) = 6" by (simp add: binexp_def bitlen_95)
  have m: "round_half_even (95 / pow2 (6 - 52)) = 6685030696878080"
    by (simp add: pow2_m46 round_half_even_def Let_def)
  show ?thesis
    unfolding to_double_def Let_def e m by (simp add: pow2_1024 pow2_m46)
qed

lemma py_round2_95: "py_round2 (Finite 95) = Finite 95"
  by (simp add: round_half_even_def Let_def to_double_95)

lemma to_double_12345: "to_double (2469 / 200) = Finite (6949617174986097 / 562949953421312)"
proof -
  have e: "max (binexp \<bar>2469 / 200\<bar>) (- 1022) = 3"
    by (simp add: binexp_def bitlen_12 floor_rat_numeral_div)
  have m: "round_half_even ((2469 / 200) / pow2 (3 - 52)) = 6949617174986097"
    by (simp add: pow2_m49 round_half_even_def Let_def floor_rat_numeral_div)
  show ?thesis
    unfolding to_double_def Let_def e m by (simp add: pow2_1024 pow2_m49)
qed

lemma to_double_1235: "to_double (247 / 20) = Finite (6952431924753203 / 562949953421312)"
proof -
  have e: "max (binexp \<bar>247 / 20\<bar>) (- 1022) = 3"
    by (simp add: binexp_def bitlen_12 floor_rat_numeral_div)
  have m: "round_half_even ((247 / 20) / pow2 (3 - 52)) = 6952431924753203"
    by (simp add: pow2_m49 round_half_even_def Let_def floor_rat_numeral_div)
  show ?thesis
    unfolding to_double_def Let_def e m by (simp add: pow2_1024 pow2_m49)
qed

lemma py_round2_12345: "py_round2 (to_double (12345 / 1000)) = to_double (1235 / 100)"
proof -
  have r: "round_half_even (6949617174986097 / 562949953421312 * 100) = 1235"
    by (simp add: round_half_even_def Let_def floor_rat_numeral_div)
  have "py_round2 (Finite (6949617174986097 / 562949953421312)) = to_double (247 / 20)"
    unfolding py_round2.simps r by simp
  then show ?thesis by (simp add: to_double_12345)
qed

lemma get_metric_value:
  assumes "get_metric_statistics env (statistics_request self m s e p) = Returns resp"
    and "Datapoints resp = Some ds" and "ds \<noteq> []"
  shows "\<exists>d. List.find (\<lambda>x. Timestamp x = Max (Timestamp ` set ds)) ds = Some d \<and>
           get_metric env self m s e p w =
             (Inr (Some (py_round2 (Average d))),
              remote (GetMetricStatistics (statistics_request self m s e p)) w)"
proof -
  from sorted_reverse_hd [OF assms(3), of Timestamp]
  obtain d rest where "sorted_reverse Timestamp ds = d # rest"
    and "List.find (\<lambda>x. Timestamp x = Max (Timestamp ` set ds)) ds = Some d"
    by blast
  with assms show ?thesis
    by (simp add: get_metric_def Let_def)
qed

lemma get_metric_no_samples:
  assumes "get_metric_statistics env (statistics_request self m s e p) = Returns resp"
    and "Datapoints resp = None \<or> Datapoints resp = Some []"
  shows "get_metric env self m s e p w =
           (Inr None,
            py_print [S ''No datapoints found for the given metric.'']
              (remote (GetMetricStatistics (statistics_request self m s e p)) w))"
  using assms by (auto simp: get_metric_def Let_def)

lemma get_metric_client_error:
  assumes "get_metric_statistics env (statistics_request self m s e p) = Raises (ClientError msg)"
  shows "get_metric env self m s e p w =
           (Inr None,
            py_print [S ''Error retrieving metric: '', S msg]
              (remote (GetMetricStatistics (statistics_request self m s e p)) w))"
  using assms by (simp add: get_metric_def Let_def)

lemma main_check_mode:
  assumes "RDS_init env (region opts) (profile opts) (ident opts) world0 = (Inr r, w1)"
    and "\<not> list opts" and "\<not> printinfo opts"
  shows "main env now opts = check_mode env now r opts w1"
  using assms by (simp add: main_def)

lemma check_mode_value:
  assumes "ident opts = Some i" and "i \<noteq> []" and "metric opts = Some m" and "m \<noteq> []"
    and "get_metric env r m (now - timedelta_minutes 5) now 60 w1 = (Inr (Some v), w2)"
  shows "check_mode env now r opts w1 = compare_thresholds opts i m v w2"
  using assms by (simp add: check_mode_def check_metric_def Let_def)

lemma reaches_iff: "reaches v t \<longleftrightarrow> (\<exists>c. t = Some c \<and> float_ge v c)"
  by (cases t) auto

subsection \<open>The threshold comparison\<close>

text \<open>
  C1. In threshold-check mode, once a metric value \<open>v\<close> is obtained, the outcome is
  CRITICAL (exit 2) if the critical threshold is set and \<open>v\<close> is at least that threshold;
  otherwise WARNING (exit 1) if the warning threshold is set and \<open>v\<close> is at least that
  threshold; otherwise OK (exit 0). With neither threshold set the outcome is OK for
  every value, and whenever critical \<open>\<le>\<close> warning \<open>\<le>\<close> value the outcome is CRITICAL.
\<close>

theorem threshold_priority:
  assumes "RDS_init env (region opts) (profile opts) (ident opts) world0 = (Inr r, w1)"
    and "get_metric env r m (now - timedelta_minutes 5) now 60 w1 = (Inr (Some v), w2)"
    and "\<not> list opts" and "\<not> printinfo opts"
    and "ident opts = Some i" and "i \<noteq> []" and "metric opts = Some m" and "m \<noteq> []"
  shows "fst (main env now opts) =
           (if \<exists>c. crit opts = Some c \<and> float_ge v c then Exit CRITICAL
            else if \<exists>w. warn opts = Some w \<and> float_ge v w then Exit WARNING
            else Exit OK)
         \<and> CRITICAL = 2 \<and> WARNING = 1 \<and> OK = 0
         \<and> (crit opts = None \<and> warn opts = None \<longrightarrow> fst (main env now opts) = Exit 0)
         \<and> (\<forall>c w. crit opts = Some c \<and> warn opts = Some w \<and> float_le c w \<and> float_le w v
                \<longrightarrow> fst (main env now opts) = Exit 2)"
proof -
  have m: "main env now opts = compare_thresholds opts i m v w2"
    using assms by (simp add: main_check_mode check_mode_value)
  have 1: "fst (main env now opts) =
           (if \<exists>c. crit opts = Some c \<and> float_ge v c then Exit CRITICAL
            else if \<exists>w. warn opts = Some w \<and> float_ge v w then Exit WARNING
            else Exit OK)"
    unfolding m by (auto simp: compare_thresholds_def reaches_iff)
  have 2: "fst (main env now opts) = Exit 0" if "crit opts = None" "warn opts = None"
    unfolding 1 using that by (simp add: OK_def)
  have 3: "fst (main env now opts) = Exit 2"
    if "crit opts = Some c" "warn opts = Some w" "float_le c w" "float_le w v" for c w
  proof -
    from that have "float_ge v c" unfolding float_ge_def by (blast intro: float_le_trans)
    with that show ?thesis unfolding 1 by (simp add: CRITICAL_def)
  qed
  from 1 2 3 show ?thesis by (simp add: CRITICAL_def WARNING_def OK_def)
qed

theorem threshold_priority_witness:
  "fst (main (provider [sample 1000 (Finite 95)]) 0 check_options) = Exit 2
   \<and> fst (main (provider [sample 1000 (Finite 95)]) 0 (check_options\<lparr>crit := None\<rparr>)) = Exit 1
   \<and> fst (main (provider [sample 1000 (Finite 95)]) 0
             (check_options\<lparr>warn := None, crit := None\<rparr>)) = Exit 0
   \<and> fst (main (provider [sample 1000 (Finite 95)]) 0
             (check_options\<lparr>warn := Some (Finite 90), crit := Some (Finite 70)\<rparr>)) = Exit 2"
proof -
  let ?env = "provider [sample 1000 (Finite 95)]"
  let ?r = "\<lparr>rds_region = ''us-east-1'', rds_profile = None,
             rds_identifier = Some ''db1'', info = Some db1_descriptor\<rparr>"
  let ?w1 = "remote (DescribeDBInstances (Some ''db1'')) world0"
  let ?w2 = "remote (GetMetricStatistics
               (statistics_request ?r ''CPUUtilization'' (0 - timedelta_minutes 5) 0 60)) ?w1"
  have init: "RDS_init ?env (region o') (profile o') (ident o') world0 = (Inr ?r, ?w1)"
    if "region o' = ''us-east-1'' \<and> profile o' = None \<and> ident o' = Some ''db1''" for o'
    using that by (simp add: RDS_init_def provider_def)
  have fetch: "get_metric ?env ?r ''CPUUtilization'' (0 - timedelta_minutes 5) 0 60 ?w1
                 = (Inr (Some (Finite 95)), ?w2)"
    by (simp add: get_metric_def provider_def sorted_reverse_def sample_def py_round2_95
          del: py_round2.simps)
  have a: "fst (main ?env 0 (check_options\<lparr>warn := Some (Finite 70), crit := Some (Finite 90)\<rparr>))
             = Exit 2"
    using threshold_priority [OF init fetch,
        of "check_options\<lparr>warn := Some (Finite 70), crit := Some (Finite 90)\<rparr>" "''db1''"]
    by (simp add: check_options_def default_options_def float_ge_def CRITICAL_def)
  have b: "fst (main ?env 0 (check_options\<lparr>warn := Some (Finite 70), crit := None\<rparr>)) = Exit 1"
    using threshold_priority [OF init fetch,
        of "check_options\<lparr>warn := Some (Finite 70), crit := None\<rparr>" "''db1''"]
    by (simp add: check_options_def default_options_def float_ge_def WARNING_def)
  have c: "fst (main ?env 0 (check_options\<lparr>warn := None, crit := None\<rparr>)) = Exit 0"
    using threshold_priority [OF init fetch,
        of "check_options\<lparr>warn := None, crit := None\<rparr>" "''db1''"]
    by (simp add: check_options_def default_options_def)
  have d: "fst (main ?env 0 (check_options\<lparr>warn := Some (Finite 90), crit := Some (Finite 70)\<rparr>))
             = Exit 2"
  proof -
    have "float_le (Finite 70) (Finite 90)" "float_le (Finite 90) (Finite 95)" by simp_all
    with threshold_priority [OF init fetch,
        of "check_options\<lparr>warn := Some (Finite 90), crit := Some (Finite 70)\<rparr>" "''db1''"]
    show ?thesis
      by (simp add: check_options_def default_options_def float_ge_def)
  qed
  have e: "check_options\<lparr>warn := Some (Finite 70), crit := Some (Finite 90)\<rparr> = check_options"
    "check_options\<lparr>warn := Some (Finite 70), crit := None\<rparr> = check_options\<lparr>crit := None\<rparr>"
    by (simp_all add: check_options_def)
  from a b c d show ?thesis unfolding e by blast
qed

lemma check_mode_no_value:
  assumes "ident opts = Some i" and "i \<noteq> []" and "metric opts = Some m" and "m \<noteq> []"
    and "get_metric env r m (now - timedelta_minutes 5) now 60 w1 = (Inr None, w2)"
  shows "check_mode env now r opts w1 =
           (Exit UNKNOWN, py_print [S ''UNKNOWN Unable to get RDS statistics''] w2)"
  using assms by (simp add: check_mode_def check_metric_def Let_def)

subsection \<open>No metric value\<close>

text \<open>
  C4. In threshold-check mode, whatever the warning and critical thresholds are, if the
  metric fetch yields no value (the provider answers with an error, or with no samples)
  the program prints the line \<^verbatim>\<open>UNKNOWN Unable to get RDS statistics\<close> and exits
  with status 3; the thresholds play no part in the run.
\<close>

theorem no_value_unknown:
  assumes init: "RDS_init env (region opts) (profile opts) (ident opts) world0 = (Inr r, w1)"
    and mode: "\<not> list opts" "\<not> printinfo opts"
    and args: "ident opts = Some i" "i \<noteq> []" "metric opts = Some m" "m \<noteq> []"
    and none: "(\<exists>msg. get_metric_statistics env
                   (statistics_request r m (now - timedelta_minutes 5) now 60)
                     = Raises (ClientError msg))
               \<or> (\<exists>resp. get_metric_statistics env
                     (statistics_request r m (now - timedelta_minutes 5) now 60)
                       = Returns resp
                   \<and> (Datapoints resp = None \<or> Datapoints resp = Some []))"
  shows "fst (main env now opts) = Exit UNKNOWN \<and> UNKNOWN = 3
         \<and> last (stdout (snd (main env now opts))) = [S ''UNKNOWN Unable to get RDS statistics'']
         \<and> (\<forall>a b. main env now (opts\<lparr>warn := a, crit := b\<rparr>) = main env now opts)"
proof -
  let ?q = "statistics_request r m (now - timedelta_minutes 5) now 60"
  from none obtain w2 where
    g: "get_metric env r m (now - timedelta_minutes 5) now 60 w1 = (Inr None, w2)"
    using get_metric_client_error [of env r m _ now 60 _ w1]
      get_metric_no_samples [of env r m _ now 60 _ w1]
    by blast
  have m: "main env now opts =
             (Exit UNKNOWN, py_print [S ''UNKNOWN Unable to get RDS statistics''] w2)"
    using init mode args g by (simp add: main_check_mode check_mode_no_value)
  have "main env now (opts\<lparr>warn := a, crit := b\<rparr>) = main env now opts" for a b
  proof -
    have "main env now (opts\<lparr>warn := a, crit := b\<rparr>) =
            (Exit UNKNOWN, py_print [S ''UNKNOWN Unable to get RDS statistics''] w2)"
      using init mode args g
      by (simp add: main_check_mode [where r = r and ?w1.0 = w1]
            check_mode_no_value [where i = i and m = m and ?w2.0 = w2])
    with m show ?thesis by simp
  qed
  with m show ?thesis by (simp add: UNKNOWN_def py_print_def)
qed

theorem no_value_unknown_witness:
  "fst (main (provider []) 0 check_options) = Exit 3
   \<and> last (stdout (snd (main (provider []) 0 check_options)))
        = [S ''UNKNOWN Unable to get RDS statistics'']
   \<and> fst (main refusing_provider 0 check_options) = Exit 3
   \<and> last (stdout (snd (main refusing_provider 0 check_options)))
        = [S ''UNKNOWN Unable to get RDS statistics'']"
proof -
  let ?r = "\<lparr>rds_region = ''us-east-1'', rds_profile = None,
             rds_identifier = Some ''db1'', info = Some db1_descriptor\<rparr>"
  let ?w1 = "remote (DescribeDBInstances (Some ''db1'')) world0"
  let ?r' = "\<lparr>rds_region = ''us-east-1'', rds_profile = None,
             rds_identifier = Some ''db1'', info = None\<rparr>"
  let ?w1' = "py_print [S ''Error retrieving RDS instance: '', S ''AccessDenied'']
                (remote (DescribeDBInstances (Some ''db1'')) world0)"
  have init: "RDS_init (provider []) (region check_options) (profile check_options)
                (ident check_options) world0 = (Inr ?r, ?w1)"
    by (simp add: RDS_init_def provider_def check_options_def default_options_def)
  have none: "(\<exists>msg. get_metric_statistics (provider [])
                   (statistics_request ?r ''CPUUtilization'' (0 - timedelta_minutes 5) 0 60)
                     = Raises (ClientError msg))
               \<or> (\<exists>resp. get_metric_statistics (provider [])
                     (statistics_request ?r ''CPUUtilization'' (0 - timedelta_minutes 5) 0 60)
                       = Returns resp
                   \<and> (Datapoints resp = None \<or> Datapoints resp = Some []))"
    by (simp add: provider_def)
  have init': "RDS_init refusing_provider (region check_options) (profile check_options)
                (ident check_options) world0 = (Inr ?r', ?w1')"
    by (simp add: RDS_init_def refusing_provider_def check_options_def default_options_def)
  have none': "(\<exists>msg. get_metric_statistics refusing_provider
                   (statistics_request ?r' ''CPUUtilization'' (0 - timedelta_minutes 5) 0 60)
                     = Raises (ClientError msg))
               \<or> (\<exists>resp. get_metric_statistics refusing_provider
                     (statistics_request ?r' ''CPUUtilization'' (0 - timedelta_minutes 5) 0 60)
                       = Returns resp
                   \<and> (Datapoints resp = None \<or> Datapoints resp = Some []))"
    by (simp add: refusing_provider_def)
  have a: "fst (main (provider []) 0 check_options) = Exit 3
     \<and> last (stdout (snd (main (provider []) 0 check_options)))
        = [S ''UNKNOWN Unable to get RDS statistics'']"
    using no_value_unknown [OF init _ _ _ _ _ _ none, of "''db1''"]
    by (simp add: check_options_def default_options_def UNKNOWN_def)
  have b: "fst (main refusing_provider 0 check_options) = Exit 3
     \<and> last (stdout (snd (main refusing_provider 0 check_options)))
        = [S ''UNKNOWN Unable to get RDS statistics'']"
    using no_value_unknown [OF init' _ _ _ _ _ _ none', of "''db1''"]
    by (simp add: check_options_def default_options_def UNKNOWN_def)
  from a b show ?thesis by blast
qed

lemma to_double_12: "to_double 12 = Finite 12"
proof -
  have e: "max (binexp \<bar>12\<bar>) (- 1022) = 3" by (simp add: binexp_def bitlen_12)
  have m: "round_half_even (12 / pow2 (3 - 52)) = 6755399441055744"
    by (simp add: pow2_m49 round_half_even_def Let_def)
  show ?thesis
    unfolding to_double_def Let_def e m by (simp add: pow2_1024 pow2_m49)
qed

lemma py_round2_12: "py_round2 (Finite 12) = Finite 12"
  by (simp add: round_half_even_def Let_def to_double_12)

lemma get_metric_tied_95_12:
  "fst (get_metric (provider [sample 1000 (Finite 95), sample 1000 (Finite 12)]) self m s e p w)
     = Inr (Some (Finite 95))"
  by (simp add: get_metric_def provider_def sorted_reverse_def sample_def py_round2_95
        del: py_round2.simps)

lemma get_metric_tied_12_95:
  "fst (get_metric (provider [sample 1000 (Finite 12), sample 1000 (Finite 95)]) self m s e p w)
     = Inr (Some (Finite 12))"
  by (simp add: get_metric_def provider_def sorted_reverse_def sample_def py_round2_12
        del: py_round2.simps)

subsection \<open>The latest sample\<close>

text \<open>
  C3, as stated: for every non-empty list of samples \<open>get_metric\<close> returns the rounded
  average of the sample with the latest timestamp, regardless of the order of the samples.
  It fails when two samples share the latest timestamp: the two orders of the same two
  samples give different values.
\<close>

theorem latest_any_order_counterexample:
  "mset [sample 1000 (Finite 95), sample 1000 (Finite 12)]
     = mset [sample 1000 (Finite 12), sample 1000 (Finite 95)]
   \<and> fst (get_metric (provider [sample 1000 (Finite 95), sample 1000 (Finite 12)])
          \<lparr>rds_region = ''us-east-1'', rds_profile = None,
           rds_identifier = Some ''db1'', info = None\<rparr>
          ''CPUUtilization'' 0 300000000 60 world0)
     \<noteq> fst (get_metric (provider [sample 1000 (Finite 12), sample 1000 (Finite 95)])
          \<lparr>rds_region = ''us-east-1'', rds_profile = None,
           rds_identifier = Some ''db1'', info = None\<rparr>
          ''CPUUtilization'' 0 300000000 60 world0)"
  unfolding get_metric_tied_95_12 get_metric_tied_12_95 by simp

text \<open>
  C3, amended: for every non-empty list of samples \<open>get_metric\<close> returns the average,
  rounded to two decimal places, of a sample with the latest timestamp; the value does not
  depend on the order of the samples whenever the samples that share the latest timestamp
  have the same average (in particular when the latest timestamp occurs once). It returns
  \<open>None\<close> when the list is empty or absent, or when the call raises \<open>ClientError\<close>.
\<close>

theorem get_metric_latest:
  "(get_metric_statistics env (statistics_request self m s e p) = Returns resp
      \<and> Datapoints resp = Some ds \<and> ds \<noteq> []
    \<longrightarrow> (\<exists>d\<in>set ds. Timestamp d = Max (Timestamp ` set ds)
           \<and> fst (get_metric env self m s e p w) = Inr (Some (py_round2 (Average d)))))
   \<and> (get_metric_statistics env (statistics_request self m s e p) = Returns resp
      \<and> Datapoints resp = Some ds \<and> ds \<noteq> []
      \<and> (\<forall>x\<in>set ds. \<forall>y\<in>set ds.
            Timestamp x = Max (Timestamp ` set ds) \<and> Timestamp y = Max (Timestamp ` set ds)
            \<longrightarrow> Average x = Average y)
      \<and> get_metric_statistics env' (statistics_request self' m' s' e' p') = Returns resp'
      \<and> Datapoints resp' = Some ds' \<and> mset ds' = mset ds
    \<longrightarrow> fst (get_metric env' self' m' s' e' p' w') = fst (get_metric env self m s e p w))
   \<and> (get_metric_statistics env (statistics_request self m s e p) = Returns resp
      \<and> (Datapoints resp = None \<or> Datapoints resp = Some [])
    \<longrightarrow> fst (get_metric env self m s e p w) = Inr None)
   \<and> (get_metric_statistics env (statistics_request self m s e p) = Raises (ClientError msg)
    \<longrightarrow> fst (get_metric env self m s e p w) = Inr None)"
proof (intro conjI impI)
  assume a: "get_metric_statistics env (statistics_request self m s e p) = Returns resp
      \<and> Datapoints resp = Some ds \<and> ds \<noteq> []"
  then obtain d where "List.find (\<lambda>x. Timestamp x = Max (Timestamp ` set ds)) ds = Some d"
    and "get_metric env self m s e p w =
           (Inr (Some (py_round2 (Average d))),
            remote (GetMetricStatistics (statistics_request self m s e p)) w)"
    using get_metric_value [of env self m s e p resp ds w] by blast
  then show "\<exists>d\<in>set ds. Timestamp d = Max (Timestamp ` set ds)
           \<and> fst (get_metric env self m s e p w) = Inr (Some (py_round2 (Average d)))"
    by (auto simp: find_Some_iff)
next
  assume a: "get_metric_statistics env (statistics_request self m s e p) = Returns resp
      \<and> Datapoints resp = Some ds \<and> ds \<noteq> []
      \<and> (\<forall>x\<in>set ds. \<forall>y\<in>set ds.
            Timestamp x = Max (Timestamp ` set ds) \<and> Timestamp y = Max (Timestamp ` set ds)
            \<longrightarrow> Average x = Average y)
      \<and> get_metric_statistics env' (statistics_request self' m' s' e' p') = Returns resp'
      \<and> Datapoints resp' = Some ds' \<and> mset ds' = mset ds"
  then have sets: "set ds' = set ds" by (metis set_mset_mset)
  with a have ne: "ds' \<noteq> []" by auto
  from a obtain d where d: "List.find (\<lambda>x. Timestamp x = Max (Timestamp ` set ds)) ds = Some d"
    and gd: "get_metric env self m s e p w =
           (Inr (Some (py_round2 (Average d))),
            remote (GetMetricStatistics (statistics_request self m s e p)) w)"
    using get_metric_value [of env self m s e p resp ds w] by blast
  from a ne obtain d' where
    d': "List.find (\<lambda>x. Timestamp x = Max (Timestamp ` set ds')) ds' = Some d'"
    and gd': "get_metric env' self' m' s' e' p' w' =
           (Inr (Some (py_round2 (Average d'))),
            remote (GetMetricStatistics (statistics_request self' m' s' e' p')) w')"
    using get_metric_value [of env' self' m' s' e' p' resp' ds' w'] by blast
  from d have "d \<in> set ds" "Timestamp d = Max (Timestamp ` set ds)"
    by (auto simp: find_Some_iff)
  moreover from d' sets have "d' \<in> set ds" "Timestamp d' = Max (Timestamp ` set ds)"
    by (auto simp: find_Some_iff)
  ultimately have "Average d' = Average d" using a by blast
  with gd gd' show "fst (get_metric env' self' m' s' e' p' w') = fst (get_metric env self m s e p w)"
    by simp
next
  assume "get_metric_statistics env (statistics_request self m s e p) = Returns resp
      \<and> (Datapoints resp = None \<or> Datapoints resp = Some [])"
  then show "fst (get_metric env self m s e p w) = Inr None"
    using get_metric_no_samples [of env self m s e p resp w] by simp
next
  assume "get_metric_statistics env (statistics_request self m s e p) = Raises (ClientError msg)"
  then show "fst (get_metric env self m s e p w) = Inr None"
    using get_metric_client_error [of env self m s e p msg w] by simp
qed


theorem get_metric_latest_witness:
  "fst (get_metric (provider [sample 2 (Finite 12), sample 3 (Finite 95), sample 1 (Finite 12)])
          \<lparr>rds_region = ''us-east-1'', rds_profile = None,
           rds_identifier = Some ''db1'', info = None\<rparr>
          ''CPUUtilization'' 0 300000000 60 world0) = Inr (Some (Finite 95))
   \<and> fst (get_metric (provider [sample 3 (Finite 95), sample 1 (Finite 12), sample 2 (Finite 12)])
          \<lparr>rds_region = ''us-east-1'', rds_profile = None,
           rds_identifier = Some ''db1'', info = None\<rparr>
          ''CPUUtilization'' 0 300000000 60 world0) = Inr (Some (Finite 95))
   \<and> fst (get_metric (provider [])
          \<lparr>rds_region = ''us-east-1'', rds_profile = None,
           rds_identifier = Some ''db1'', info = None\<rparr>
          ''CPUUtilization'' 0 300000000 60 world0) = Inr None
   \<and> fst (get_metric refusing_provider
          \<lparr>rds_region = ''us-east-1'', rds_profile = None,
           rds_identifier = Some ''db1'', info = None\<rparr>
          ''CPUUtilization'' 0 300000000 60 world0) = Inr None"
proof -
  let ?r = "\<lparr>rds_region = ''us-east-1'', rds_profile = None,
             rds_identifier = Some ''db1'', info = None\<rparr>"
  let ?ds = "[sample 2 (Finite 12), sample 3 (Finite 95), sample 1 (Finite 12)]"
  let ?ds' = "[sample 3 (Finite 95), sample 1 (Finite 12), sample 2 (Finite 12)]"
  note inst = get_metric_latest [where self = "?r" and m = "''CPUUtilization''" and s = 0
      and e = 300000000 and p = 60 and w = world0 and self' = "?r"
      and m' = "''CPUUtilization''" and s' = 0 and e' = 300000000 and p' = 60
      and w' = world0]
  have a: "fst (get_metric (provider ?ds) ?r ''CPUUtilization'' 0 300000000 60 world0)
             = Inr (Some (Finite 95))"
    using inst [where env = "provider ?ds" and resp = "\<lparr>Datapoints = Some ?ds\<rparr>"
        and ds = "?ds"]
    by (simp add: provider_def sample_def py_round2_95 py_round2_12 del: py_round2.simps)
  have b: "fst (get_metric (provider ?ds') ?r ''CPUUtilization'' 0 300000000 60 world0)
             = fst (get_metric (provider ?ds) ?r ''CPUUtilization'' 0 300000000 60 world0)"
    using inst [where env = "provider ?ds" and resp = "\<lparr>Datapoints = Some ?ds\<rparr>"
        and ds = "?ds" and env' = "provider ?ds'" and resp' = "\<lparr>Datapoints = Some ?ds'\<rparr>"
        and ds' = "?ds'"]
    by (simp add: provider_def sample_def)
  have c: "fst (get_metric (provider []) ?r ''CPUUtilization'' 0 300000000 60 world0) = Inr None"
    using inst [where env = "provider []" and resp = "\<lparr>Datapoints = Some []\<rparr>"]
    by (simp add: provider_def)
  have d: "fst (get_metric refusing_provider ?r ''CPUUtilization'' 0 300000000 60 world0)
             = Inr None"
    using inst [where env = refusing_provider and msg = "''AccessDenied''"]
    by (simp add: refusing_provider_def)
  from a b c d show ?thesis by simp
qed

subsection \<open>Samples that share the latest timestamp\<close>

text \<open>
  C9. When several samples share the latest timestamp, \<open>get_metric\<close> returns the rounded
  average of the first of them in the order the provider returned (the descending sort is
  stable); so there are inputs with tied latest timestamps and different averages for
  which the returned value depends on the order of the samples.
\<close>

theorem tied_latest_first_wins:
  "(get_metric_statistics env (statistics_request self m s e p) = Returns resp
      \<and> Datapoints resp = Some ds \<and> ds \<noteq> []
    \<longrightarrow> (\<exists>d. List.find (\<lambda>x. Timestamp x = Max (Timestamp ` set ds)) ds = Some d
           \<and> fst (get_metric env self m s e p w) = Inr (Some (py_round2 (Average d)))))
   \<and> (\<exists>ds ds'. mset ds = mset ds'
         \<and> (\<forall>x\<in>set ds. Timestamp x = Max (Timestamp ` set ds))
         \<and> fst (get_metric (provider ds) self m s e p w)
             \<noteq> fst (get_metric (provider ds') self m s e p w))"
proof (intro conjI impI)
  assume "get_metric_statistics env (statistics_request self m s e p) = Returns resp
      \<and> Datapoints resp = Some ds \<and> ds \<noteq> []"
  then show "\<exists>d. List.find (\<lambda>x. Timestamp x = Max (Timestamp ` set ds)) ds = Some d
           \<and> fst (get_metric env self m s e p w) = Inr (Some (py_round2 (Average d)))"
    using get_metric_value [of env self m s e p resp ds w] by force
next
  let ?ds = "[sample 1000 (Finite 95), sample 1000 (Finite 12)]"
  let ?ds' = "[sample 1000 (Finite 12), sample 1000 (Finite 95)]"
  have "mset ?ds = mset ?ds'" by simp
  moreover have "\<forall>x\<in>set ?ds. Timestamp x = Max (Timestamp ` set ?ds)"
    by (simp add: sample_def)
  moreover have "fst (get_metric (provider ?ds) self m s e p w)
             \<noteq> fst (get_metric (provider ?ds') self m s e p w)"
    unfolding get_metric_tied_95_12 get_metric_tied_12_95 by simp
  ultimately show "\<exists>ds ds'. mset ds = mset ds'
         \<and> (\<forall>x\<in>set ds. Timestamp x = Max (Timestamp ` set ds))
         \<and> fst (get_metric (provider ds) self m s e p w)
             \<noteq> fst (get_metric (provider ds') self m s e p w)"
    by blast
qed

theorem tied_latest_first_wins_witness:
  "fst (get_metric (provider [sample 1000 (Finite 95), sample 1000 (Finite 12), sample 7 (Finite 12)])
          \<lparr>rds_region = ''us-east-1'', rds_profile = None,
           rds_identifier = Some ''db1'', info = None\<rparr>
          ''CPUUtilization'' 0 300000000 60 world0) = Inr (Some (Finite 95))"
  using tied_latest_first_wins [where env =
        "provider [sample 1000 (Finite 95), sample 1000 (Finite 12), sample 7 (Finite 12)]"
      and self = "\<lparr>rds_region = ''us-east-1'', rds_profile = None,
           rds_identifier = Some ''db1'', info = None\<rparr>"
      and m = "''CPUUtilization''" and s = 0 and e = 300000000 and p = 60 and w = world0
      and resp = "\<lparr>Datapoints =
          Some [sample 1000 (Finite 95), sample 1000 (Finite 12), sample 7 (Finite 12)]\<rparr>"
      and ds = "[sample 1000 (Finite 95), sample 1000 (Finite 12), sample 7 (Finite 12)]"]
  by (simp add: provider_def sample_def py_round2_95 del: py_round2.simps)

subsection \<open>Rounding\<close>

text \<open>
  C5. When the average of the latest sample is 12.345 (the float nearest to it, which lies
  just above 12.345), the two-decimal rounding of \<open>get_metric\<close> gives 12.35 (the float
  nearest to 12.35), and that is the value in the status line.
\<close>

theorem rounding_12_345:
  "py_round2 (to_double (12345 / 1000)) = to_double (1235 / 100)
   \<and> (RDS_init env (region opts) (profile opts) (ident opts) world0 = (Inr r, w1)
      \<and> \<not> list opts \<and> \<not> printinfo opts
      \<and> ident opts = Some i \<and> i \<noteq> [] \<and> metric opts = Some m \<and> m \<noteq> []
      \<and> get_metric_statistics env (statistics_request r m (now - timedelta_minutes 5) now 60)
          = Returns resp
      \<and> Datapoints resp = Some ds
      \<and> List.find (\<lambda>x. Timestamp x = Max (Timestamp ` set ds)) ds = Some d
      \<and> Average d = to_double (12345 / 1000)
    \<longrightarrow> fst (get_metric env r m (now - timedelta_minutes 5) now 60 w1)
          = Inr (Some (to_double (1235 / 100)))
        \<and> (\<exists>word\<in>{'': CRITICAL '', '': WARNING '', '': OK ''}.
              last (stdout (snd (main env now opts)))
                = [S i, S '' '', S m, S word, F (to_double (1235 / 100)), S ''%'']))"
proof (intro conjI impI)
  show "py_round2 (to_double (12345 / 1000)) = to_double (1235 / 100)"
    by (rule py_round2_12345)
next
  assume a: "RDS_init env (region opts) (profile opts) (ident opts) world0 = (Inr r, w1)
      \<and> \<not> list opts \<and> \<not> printinfo opts
      \<and> ident opts = Some i \<and> i \<noteq> [] \<and> metric opts = Some m \<and> m \<noteq> []
      \<and> get_metric_statistics env (statistics_request r m (now - timedelta_minutes 5) now 60)
          = Returns resp
      \<and> Datapoints resp = Some ds
      \<and> List.find (\<lambda>x. Timestamp x = Max (Timestamp ` set ds)) ds = Some d
      \<and> Average d = to_double (12345 / 1000)"
  let ?v = "to_double (1235 / 100)"
  from a have ne: "ds \<noteq> []" by auto
  from a ne obtain d' where
    "List.find (\<lambda>x. Timestamp x = Max (Timestamp ` set ds)) ds = Some d'"
    and g: "get_metric env r m (now - timedelta_minutes 5) now 60 w1 =
           (Inr (Some (py_round2 (Average d'))),
            remote (GetMetricStatistics
              (statistics_request r m (now - timedelta_minutes 5) now 60)) w1)"
    using get_metric_value [of env r m "now - timedelta_minutes 5" now 60 resp ds w1]
    by blast
  with a have "d' = d" by simp
  with a g have g': "get_metric env r m (now - timedelta_minutes 5) now 60 w1 =
           (Inr (Some ?v),
            remote (GetMetricStatistics
              (statistics_request r m (now - timedelta_minutes 5) now 60)) w1)"
    by (simp only: py_round2_12345)
  then show "fst (get_metric env r m (now - timedelta_minutes 5) now 60 w1) = Inr (Some ?v)"
    by simp
  from a have m1: "main env now opts = check_mode env now r opts w1"
    using main_check_mode [of env opts r w1 now] by blast
  from a have m2: "check_mode env now r opts w1 = compare_thresholds opts i m ?v
      (remote (GetMetricStatistics
         (statistics_request r m (now - timedelta_minutes 5) now 60)) w1)"
    using check_mode_value [OF _ _ _ _ g', of opts i] by blast
  from m1 m2 have "main env now opts = compare_thresholds opts i m ?v
      (remote (GetMetricStatistics
         (statistics_request r m (now - timedelta_minutes 5) now 60)) w1)"
    by simp
  then show "\<exists>word\<in>{'': CRITICAL '', '': WARNING '', '': OK ''}.
              last (stdout (snd (main env now opts)))
                = [S i, S '' '', S m, S word, F ?v, S ''%'']"
    by (simp add: compare_thresholds_def py_print_def)
qed

theorem rounding_12_345_witness:
  "\<exists>word\<in>{'': CRITICAL '', '': WARNING '', '': OK ''}.
     last (stdout (snd (main (provider [sample 1000 (to_double (12345 / 1000))]) 0 check_options)))
       = [S ''db1'', S '' '', S ''CPUUtilization'', S word, F (to_double (1235 / 100)), S ''%'']"
proof -
  let ?ds = "[sample 1000 (to_double (12345 / 1000))]"
  let ?r = "\<lparr>rds_region = ''us-east-1'', rds_profile = None,
             rds_identifier = Some ''db1'', info = Some db1_descriptor\<rparr>"
  let ?w1 = "remote (DescribeDBInstances (Some ''db1'')) world0"
  have init: "RDS_init (provider ?ds) (region check_options) (profile check_options)
                (ident check_options) world0 = (Inr ?r, ?w1)"
    by (simp add: RDS_init_def provider_def check_options_def default_options_def)
  have opts: "\<not> list check_options" "\<not> printinfo check_options"
    "ident check_options = Some ''db1''" "metric check_options = Some ''CPUUtilization''"
    by (simp_all add: check_options_def default_options_def)
  have call: "get_metric_statistics (provider ?ds)
       (statistics_request ?r ''CPUUtilization'' (0 - timedelta_minutes 5) 0 60)
          = Returns \<lparr>Datapoints = Some ?ds\<rparr>"
    by (simp add: provider_def)
  have fnd: "List.find (\<lambda>x. Timestamp x = Max (Timestamp ` set ?ds)) ?ds
               = Some (sample 1000 (to_double (12345 / 1000)))"
    by simp
  have avg: "Average (sample 1000 (to_double (12345 / 1000))) = to_double (12345 / 1000)"
    by (simp add: sample_def)
  show ?thesis
    using rounding_12_345 [where env = "provider ?ds" and opts = check_options and r = "?r"
        and ?w1.0 = "?w1" and i = "''db1''" and m = "''CPUUtilization''" and now = 0
        and resp = "\<lparr>Datapoints = Some ?ds\<rparr>" and ds = "?ds"
        and d = "sample 1000 (to_double (12345 / 1000))"]
      init opts call fnd avg
    by (simp del: py_round2.simps)
qed



subsection \<open>Usage errors\<close>




subsection \<open>The exit status of a usage error\<close>

text \<open>
  C10. The parser's usage error (identifier or metric missing in check mode) ends the
  process with exit status 2, the numeric code of CRITICAL: a run that ends with a usage
  error and a run that reports CRITICAL have the same exit status.
\<close>

theorem usage_error_exit_is_critical:
  assumes "RDS_init env (region opts) (profile opts) (ident opts) world0 = (Inr r, w1)"
    and "\<not> list opts" and "\<not> printinfo opts"
    and "\<not> truthy (ident opts) \<or> \<not> truthy (metric opts)"
    and "RDS_init env' (region opts') (profile opts') (ident opts') world0 = (Inr r', w1')"
    and "get_metric env' r' m (now' - timedelta_minutes 5) now' 60 w1' = (Inr (Some v), w2')"
    and "\<not> list opts'" and "\<not> printinfo opts'"
    and "ident opts' = Some i" and "i \<noteq> []" and "metric opts' = Some m" and "m \<noteq> []"
    and "crit opts' = Some c" and "float_ge v c"
  shows "fst (main env now opts) = Exit 2 \<and> CRITICAL = 2
         \<and> fst (main env' now' opts') = Exit CRITICAL
         \<and> fst (main env' now' opts') = fst (main env now opts)"
proof -
  have u: "fst (main env now opts) = Exit 2"
    using assms(1-4) by (auto simp: main_def check_mode_def parser_error_def)
  have "main env' now' opts' = compare_thresholds opts' i m v w2'"
    using assms(5-12) by (simp add: main_check_mode check_mode_value)
  with assms(13,14) have k: "fst (main env' now' opts') = Exit CRITICAL"
    by (simp add: compare_thresholds_def)
  from u k show ?thesis by (simp add: CRITICAL_def)
qed

theorem usage_error_exit_is_critical_witness:
  "fst (main (provider []) 0 (default_options\<lparr>ident := Some ''db1''\<rparr>)) = Exit 2
   \<and> fst (main (provider [sample 1000 (Finite 95)]) 0 check_options)
       = fst (main (provider []) 0 (default_options\<lparr>ident := Some ''db1''\<rparr>))"
proof -
  let ?env = "provider [sample 1000 (Finite 95)]"
  let ?r = "\<lparr>rds_region = ''us-east-1'', rds_profile = None,
             rds_identifier = Some ''db1'', info = Some db1_descriptor\<rparr>"
  let ?w1 = "remote (DescribeDBInstances (Some ''db1'')) world0"
  let ?w2 = "remote (GetMetricStatistics
               (statistics_request ?r ''CPUUtilization'' (0 - timedelta_minutes 5) 0 60)) ?w1"
  let ?u = "default_options\<lparr>ident := Some ''db1''\<rparr>"
  have i: "RDS_init (provider []) (region ?u) (profile ?u) (ident ?u) world0 = (Inr ?r, ?w1)"
    by (simp add: RDS_init_def provider_def default_options_def)
  have u: "\<not> list ?u" "\<not> printinfo ?u" "\<not> truthy (ident ?u) \<or> \<not> truthy (metric ?u)"
    by (simp_all add: default_options_def)
  have i': "RDS_init ?env (region check_options) (profile check_options)
              (ident check_options) world0 = (Inr ?r, ?w1)"
    by (simp add: RDS_init_def provider_def check_options_def default_options_def)
  have fetch: "get_metric ?env ?r ''CPUUtilization'' (0 - timedelta_minutes 5) 0 60 ?w1
                 = (Inr (Some (Finite 95)), ?w2)"
    by (simp add: get_metric_def provider_def sorted_reverse_def sample_def py_round2_95
          del: py_round2.simps)
  have c: "\<not> list check_options" "\<not> printinfo check_options"
    "ident check_options = Some ''db1''" "''db1'' \<noteq> []"
    "metric check_options = Some ''CPUUtilization''" "''CPUUtilization'' \<noteq> []"
    "crit check_options = Some (Finite 90)" "float_ge (Finite 95) (Finite 90)"
    by (simp_all add: check_options_def default_options_def float_ge_def)
  from usage_error_exit_is_critical [OF i u i' fetch c]
  show ?thesis by simp
qed






subsection \<open>Provider errors\<close>




lemma RDS_init_region:
  "RDS_init env g p a w = (Inr r, w1) \<Longrightarrow> rds_region r = g"
  by (auto simp: RDS_init_def Let_def split: if_splits raised.splits exn.splits list.splits)

lemma RDS_init_info:
  "RDS_init env g p a w = (Inr r, w1) \<Longrightarrow> truthy a \<Longrightarrow>
   describe_db_instances env a = Returns resp \<Longrightarrow> DBInstances resp = d # rest \<Longrightarrow>
   info r = Some d"
  by (auto simp: RDS_init_def Let_def)

subsection \<open>Listing\<close>

text \<open>
  C7. \<open>get_list\<close> returns the mapping from the configured region name to the sequence of
  descriptors the provider returned; when the provider answers with an error it logs the
  error and returns the empty mapping; in list mode the program prints the mapping and
  exits with status OK (0).
\<close>

theorem list_mode_prints_mapping:
  "(describe_db_instances env None = Returns resp
    \<longrightarrow> fst (get_list env self w) = Inr [(rds_region self, DBInstances resp)])
   \<and> (describe_db_instances env None = Raises (ClientError msg)
    \<longrightarrow> fst (get_list env self w) = Inr []
        \<and> last (stdout (snd (get_list env self w)))
            = [S ''Error listing RDS instances: '', S msg])
   \<and> (list opts
      \<and> RDS_init env (region opts) (profile opts) (ident opts) world0 = (Inr r, w1)
      \<and> get_list env r w1 = (Inr l, w2)
    \<longrightarrow> rds_region r = region opts
        \<and> fst (main env now opts) = Exit OK \<and> OK = 0
        \<and> stdout (snd (main env now opts))
            = stdout w2 @ [[S ''List of all DB instances in '', S (region opts), S '':''],
                           [PP (Listing l)]])"
proof (intro conjI impI)
  assume "describe_db_instances env None = Returns resp"
  then show "fst (get_list env self w) = Inr [(rds_region self, DBInstances resp)]"
    by (simp add: get_list_def)
next
  assume e: "describe_db_instances env None = Raises (ClientError msg)"
  then show "fst (get_list env self w) = Inr []" by (simp add: get_list_def)
  from e show "last (stdout (snd (get_list env self w)))
            = [S ''Error listing RDS instances: '', S msg]"
    by (simp add: get_list_def py_print_def remote_def Let_def)
next
  assume a: "list opts
      \<and> RDS_init env (region opts) (profile opts) (ident opts) world0 = (Inr r, w1)
      \<and> get_list env r w1 = (Inr l, w2)"
  then show "rds_region r = region opts" by (auto dest: RDS_init_region)
  from a have m: "main env now opts =
      (Exit 0, py_print [PP (Listing l)]
         (py_print [S ''List of all DB instances in '', S (region opts), S '':''] w2))"
    by (simp add: main_def list_mode_def)
  then show "fst (main env now opts) = Exit OK" by (simp add: OK_def)
  show "OK = 0" by (simp add: OK_def)
  from m show "stdout (snd (main env now opts))
            = stdout w2 @ [[S ''List of all DB instances in '', S (region opts), S '':''],
                           [PP (Listing l)]]"
    by (simp add: py_print_def)
qed

theorem list_mode_prints_mapping_witness:
  "fst (get_list (provider [])
          \<lparr>rds_region = ''us-east-1'', rds_profile = None,
           rds_identifier = None, info = None\<rparr> world0)
     = Inr [(''us-east-1'', [db1_descriptor])]
   \<and> fst (get_list refusing_provider
          \<lparr>rds_region = ''us-east-1'', rds_profile = None,
           rds_identifier = None, info = None\<rparr> world0) = Inr []
   \<and> fst (main (provider []) 0 (default_options\<lparr>list := True\<rparr>)) = Exit 0
   \<and> last (stdout (snd (main (provider []) 0 (default_options\<lparr>list := True\<rparr>))))
       = [PP (Listing [(''us-east-1'', [db1_descriptor])])]"
proof -
  let ?r = "\<lparr>rds_region = ''us-east-1'', rds_profile = None,
             rds_identifier = None, info = None\<rparr>"
  let ?o = "default_options\<lparr>list := True\<rparr>"
  let ?w = "remote (DescribeDBInstances None)
              (py_print [S ''Listing all RDS instances in region '', S ''us-east-1''] world0)"
  note inst = list_mode_prints_mapping [where self = "?r" and w = world0 and opts = "?o"
      and r = "?r" and ?w1.0 = world0 and now = 0]
  have 1: "fst (get_list (provider []) ?r world0) = Inr [(''us-east-1'', [db1_descriptor])]"
    using inst [where env = "provider []" and resp = "\<lparr>DBInstances = [db1_descriptor]\<rparr>"]
    by (simp add: provider_def)
  have 2: "fst (get_list refusing_provider ?r world0) = Inr []"
    using inst [where env = refusing_provider and msg = "''AccessDenied''"]
    by (simp add: refusing_provider_def)
  have o: "list ?o" by (simp add: default_options_def)
  have i: "RDS_init (provider []) (region ?o) (profile ?o) (ident ?o) world0 = (Inr ?r, world0)"
    by (simp add: RDS_init_def default_options_def)
  have l: "get_list (provider []) ?r world0 = (Inr [(''us-east-1'', [db1_descriptor])], ?w)"
    by (simp add: get_list_def provider_def)
  have 3: "fst (main (provider []) 0 ?o) = Exit 0
     \<and> last (stdout (snd (main (provider []) 0 ?o)))
          = [PP (Listing [(''us-east-1'', [db1_descriptor])])]"
    using inst [where env = "provider []" and l = "[(''us-east-1'', [db1_descriptor])]"
        and ?w2.0 = "?w"] o i l
    by simp
  from 1 2 3 show ?thesis by blast
qed

subsection \<open>The three modes\<close>

text \<open>
  C8. The three modes exclude each other and are chosen in the order list, info,
  threshold check: with the list flag set, list mode runs whatever the other flags are;
  otherwise, with the info flag set, info mode prints the fetched descriptor or a "not
  found" message and exits OK (0); otherwise threshold-check mode runs.
\<close>

theorem mode_precedence:
  assumes "RDS_init env (region opts) (profile opts) (ident opts) world0 = (Inr r, w1)"
  shows "(list opts
          \<longrightarrow> main env now opts = list_mode env r opts w1
              \<and> (\<forall>p m a b. main env now (opts\<lparr>printinfo := p, metric := m, warn := a, crit := b\<rparr>)
                             = main env now opts))
       \<and> (\<not> list opts \<and> printinfo opts
          \<longrightarrow> main env now opts = info_mode r opts w1
              \<and> fst (main env now opts) = Exit OK \<and> OK = 0
              \<and> (\<exists>l. stdout (snd (main env now opts)) = stdout w1 @ [l]
                    \<and> (\<forall>d. info r = Some d \<and> d \<noteq> [] \<longrightarrow> l = [PP (Descriptor d)])
                    \<and> (info r = None \<or> info r = Some []
                         \<longrightarrow> l = [S ''No DB instance \"'', S (str_opt (ident opts)),
                                  S ''\" found.'']))
              \<and> (\<forall>m a b. main env now (opts\<lparr>metric := m, warn := a, crit := b\<rparr>)
                           = main env now opts))
       \<and> (\<not> list opts \<and> \<not> printinfo opts
          \<longrightarrow> main env now opts = check_mode env now r opts w1)
       \<and> (\<forall>resp d rest. truthy (ident opts)
             \<and> describe_db_instances env (ident opts) = Returns resp
             \<and> DBInstances resp = d # rest
          \<longrightarrow> info r = Some d)"
proof (intro conjI impI allI)
  assume l: "list opts"
  with assms show "main env now opts = list_mode env r opts w1"
    by (simp add: main_def)
  fix p m a b
  from assms l
  show "main env now (opts\<lparr>printinfo := p, metric := m, warn := a, crit := b\<rparr>)
          = main env now opts"
    by (simp add: main_def list_mode_def split: prod.splits sum.splits)
next
  assume i: "\<not> list opts \<and> printinfo opts"
  with assms show m: "main env now opts = info_mode r opts w1"
    by (simp add: main_def)
  then show "fst (main env now opts) = Exit OK" by (simp add: info_mode_def OK_def)
  show "OK = 0" by (simp add: OK_def)
  from m show "\<exists>l. stdout (snd (main env now opts)) = stdout w1 @ [l]
                    \<and> (\<forall>d. info r = Some d \<and> d \<noteq> [] \<longrightarrow> l = [PP (Descriptor d)])
                    \<and> (info r = None \<or> info r = Some []
                         \<longrightarrow> l = [S ''No DB instance \"'', S (str_opt (ident opts)),
                                  S ''\" found.''])"
    by (cases "info r")
       (auto simp: info_mode_def get_info_def py_print_def Let_def)
  fix m a b
  from assms i
  show "main env now (opts\<lparr>metric := m, warn := a, crit := b\<rparr>) = main env now opts"
    by (simp add: main_def info_mode_def split: option.splits)
next
  assume "\<not> list opts \<and> \<not> printinfo opts"
  with assms show "main env now opts = check_mode env now r opts w1"
    by (simp add: main_def)
next
  fix resp d rest
  assume "truthy (ident opts)
             \<and> describe_db_instances env (ident opts) = Returns resp
             \<and> DBInstances resp = d # rest"
  with assms show "info r = Some d" by (auto dest: RDS_init_info)
qed

theorem mode_precedence_witness:
  "main (provider []) 0 (check_options\<lparr>list := True, printinfo := True\<rparr>)
     = main (provider []) 0 (check_options\<lparr>list := True\<rparr>)
   \<and> fst (main (provider []) 0 (check_options\<lparr>printinfo := True\<rparr>)) = Exit 0
   \<and> stdout (snd (main (provider []) 0 (check_options\<lparr>printinfo := True\<rparr>)))
       = [[PP (Descriptor db1_descriptor)]]
   \<and> stdout (snd (main refusing_provider 0 (check_options\<lparr>printinfo := True\<rparr>)))
       = [[S ''Error retrieving RDS instance: '', S ''AccessDenied''],
          [S ''No DB instance \"'', S ''db1'', S ''\" found.'']]
   \<and> main (provider []) 0 check_options
       = check_mode (provider []) 0
           \<lparr>rds_region = ''us-east-1'', rds_profile = None,
            rds_identifier = Some ''db1'', info = Some db1_descriptor\<rparr>
           check_options (remote (DescribeDBInstances (Some ''db1'')) world0)"
proof -
  let ?r = "\<lparr>rds_region = ''us-east-1'', rds_profile = None,
             rds_identifier = Some ''db1'', info = Some db1_descriptor\<rparr>"
  let ?w1 = "remote (DescribeDBInstances (Some ''db1'')) world0"
  let ?r' = "\<lparr>rds_region = ''us-east-1'', rds_profile = None,
             rds_identifier = Some ''db1'', info = None\<rparr>"
  let ?w1' = "py_print [S ''Error retrieving RDS instance: '', S ''AccessDenied'']
                (remote (DescribeDBInstances (Some ''db1'')) world0)"
  let ?l = "check_options\<lparr>list := True\<rparr>"
  let ?p = "check_options\<lparr>printinfo := True\<rparr>"
  have i: "RDS_init (provider []) (region o') (profile o') (ident o') world0 = (Inr ?r, ?w1)"
    if "o' = ?l \<or> o' = ?p \<or> o' = check_options" for o'
    using that
    by (auto simp: RDS_init_def provider_def check_options_def default_options_def)
  have i': "RDS_init refusing_provider (region ?p) (profile ?p) (ident ?p) world0 = (Inr ?r', ?w1')"
    by (simp add: RDS_init_def refusing_provider_def check_options_def default_options_def)
  have f: "\<not> list ?p \<and> printinfo ?p" "ident ?p = Some ''db1''"
    by (simp_all add: check_options_def default_options_def)
  have 1: "main (provider []) 0 (check_options\<lparr>list := True, printinfo := True\<rparr>)
             = main (provider []) 0 ?l"
  proof -
    have "list ?l" by simp
    moreover have "?l\<lparr>printinfo := True, metric := metric ?l, warn := warn ?l, crit := crit ?l\<rparr>
            = check_options\<lparr>list := True, printinfo := True\<rparr>"
      by simp
    ultimately show ?thesis
      using mode_precedence [OF i, of ?l 0] by metis
  qed
  have d: "info ?r = Some db1_descriptor"
  proof -
    have "truthy (ident ?p)
        \<and> describe_db_instances (provider []) (ident ?p) = Returns \<lparr>DBInstances = [db1_descriptor]\<rparr>
        \<and> DBInstances \<lparr>DBInstances = [db1_descriptor]\<rparr> = db1_descriptor # []"
      by (simp add: f provider_def)
    with mode_precedence [OF i, of ?p 0] show ?thesis by blast
  qed
  have ne: "db1_descriptor \<noteq> []" by (simp add: db1_descriptor_def)
  have 2: "fst (main (provider []) 0 ?p) = Exit 0
           \<and> stdout (snd (main (provider []) 0 ?p)) = [[PP (Descriptor db1_descriptor)]]"
  proof -
    from mode_precedence [OF i, of ?p 0] f(1)
    have e: "fst (main (provider []) 0 ?p) = Exit OK" and z: "OK = 0"
      and "\<exists>l. stdout (snd (main (provider []) 0 ?p)) = stdout ?w1 @ [l]
              \<and> (\<forall>d. info ?r = Some d \<and> d \<noteq> [] \<longrightarrow> l = [PP (Descriptor d)])
              \<and> (info ?r = None \<or> info ?r = Some []
                   \<longrightarrow> l = [S ''No DB instance \"'', S (str_opt (ident ?p)), S ''\" found.''])"
      by blast+
    then obtain l where "stdout (snd (main (provider []) 0 ?p)) = stdout ?w1 @ [l]"
      and "\<forall>d. info ?r = Some d \<and> d \<noteq> [] \<longrightarrow> l = [PP (Descriptor d)]"
      by blast
    with d ne have "stdout (snd (main (provider []) 0 ?p)) = stdout ?w1 @ [[PP (Descriptor db1_descriptor)]]"
      by blast
    with e z show ?thesis by (simp add: remote_def world0_def)
  qed
  have 3: "stdout (snd (main refusing_provider 0 ?p))
       = [[S ''Error retrieving RDS instance: '', S ''AccessDenied''],
          [S ''No DB instance \"'', S ''db1'', S ''\" found.'']]"
  proof -
    from mode_precedence [OF i', of 0] f(1)
    have "\<exists>l. stdout (snd (main refusing_provider 0 ?p)) = stdout ?w1' @ [l]
              \<and> (\<forall>d. info ?r' = Some d \<and> d \<noteq> [] \<longrightarrow> l = [PP (Descriptor d)])
              \<and> (info ?r' = None \<or> info ?r' = Some []
                   \<longrightarrow> l = [S ''No DB instance \"'', S (str_opt (ident ?p)), S ''\" found.''])"
      by blast
    then obtain l where "stdout (snd (main refusing_provider 0 ?p)) = stdout ?w1' @ [l]"
      and "info ?r' = None \<or> info ?r' = Some []
            \<longrightarrow> l = [S ''No DB instance \"'', S (str_opt (ident ?p)), S ''\" found.'']"
      by blast
    then have "stdout (snd (main refusing_provider 0 ?p)) = stdout ?w1' @
        [[S ''No DB instance \"'', S (str_opt (ident ?p)), S ''\" found.'']]"
      by simp
    then show ?thesis unfolding f(2) by (simp add: remote_def world0_def py_print_def)
  qed
  have 4: "main (provider []) 0 check_options = check_mode (provider []) 0 ?r check_options ?w1"
    using mode_precedence [OF i, of check_options 0]
    by (simp add: check_options_def default_options_def)
  from 1 2 3 4 show ?thesis by blast
qed

end
